theory Spec2Isabelle
  imports Complex_Main "HOL-Library.Product_Lexorder"
begin

section \<open>Canada wildfire dashboard: the data model of \<^verbatim>\<open>app.py\<close>\<close>

text \<open>
  The script reads the FIRMS feed with pandas, normalises it in \<^verbatim>\<open>load_firms_data\<close>
  and renders one page from the normalised table and the sidebar controls. The model
  below follows the script line by line. A data frame is the list of its rows, in index
  order; a column is the list of one field of the rows.

  A float64 value is the rational number it denotes, and the floating-point null marker
  (NaN) is \<open>None\<close>. The result of a float64 operation is the rounding of the exact
  result; the rounding function is a parameter of the model (\<open>rounding\<close> below). A
  calendar date is (year, month, day), ordered lexicographically, which is the calendar
  order; a pandas Timestamp is a date with the time of day after midnight.
\<close>

type_synonym float = rat
type_synonym rounding = "rat \<Rightarrow> rat"
type_synonym date = "nat \<times> nat \<times> nat"
type_synonym timestamp = "date \<times> nat"

text \<open>
  The exceptions that end a run: a failed fetch, Python's \<^verbatim>\<open>ValueError\<close> and
  \<^verbatim>\<open>TypeError\<close>, and the plain \<^verbatim>\<open>Exception\<close> that leafmap raises for any failure
  inside \<^verbatim>\<open>add_heatmap\<close>.
\<close>

datatype error = FetchError | ValueError | TypeError | PyException

type_synonym 'a result = "error + 'a"

text \<open>\<^verbatim>\<open>shapely.geometry.Point\<close>: built from a pair, first component x, second y.\<close>

datatype point = Point (x_coord: "float option") (y_coord: "float option")

text \<open>
  One row of the data frame with the columns the script reads. The type of the
  \<^verbatim>\<open>acq_date\<close> column changes at line 15, from the strings of the CSV (\<open>None\<close> for an
  empty cell) to timestamps (\<open>None\<close> for NaT), so it is a parameter of the row type.
  \<^verbatim>\<open>acq_time\<close> is the HHMM integer of the feed. Any cell of the CSV may be empty.
\<close>

record 'd df_row =
  latitude :: "float option"
  longitude :: "float option"
  acq_date :: 'd
  acq_time :: "int option"
  brightness :: "float option"
  confidence :: "int option"
  satellite :: "string option"

text \<open>Line 17 adds the column \<^verbatim>\<open>geometry\<close>, line 19 the column \<^verbatim>\<open>value\<close>.\<close>

record 'd geo_row = "'d df_row" +
  geometry :: point

record 'd gdf_row = "'d geo_row" +
  value_col :: "float option"

type_synonym raw_row = "string option df_row"
type_synonym fire_detection = "timestamp option gdf_row"

text \<open>A \<^verbatim>\<open>GeoDataFrame\<close>: the rows and the coordinate reference system they are tagged with.\<close>

record 'r geo_data_frame =
  rows :: "'r list"
  crs :: string

type_synonym gdf = "fire_detection geo_data_frame"

section \<open>The pandas operations the script calls\<close>

text \<open>
  \<^verbatim>\<open>pd.to_datetime(column, errors="coerce")\<close> is the library's parser and is a parameter
  of the model: given the whole column (pandas may infer one format from it) and one
  string of it, it returns the timestamp, or \<open>None\<close> (NaT) where the string does not
  parse. An empty cell always becomes NaT.
\<close>

type_synonym parser = "string option list \<Rightarrow> string \<Rightarrow> timestamp option"

definition to_datetime_coerce :: "parser \<Rightarrow> string option list \<Rightarrow> timestamp option list" where
  "to_datetime_coerce to_datetime col =
     map (\<lambda>c. case c of None \<Rightarrow> None | Some s \<Rightarrow> to_datetime col s) col"

text \<open>\<^verbatim>\<open>df["acq_date"] = column\<close>: the column is assigned position by position.\<close>

definition assign_acq_date :: "'a df_row \<Rightarrow> 'b \<Rightarrow> 'b df_row" where
  "assign_acq_date r d =
     \<lparr>latitude = latitude r, longitude = longitude r, acq_date = d, acq_time = acq_time r,
      brightness = brightness r, confidence = confidence r, satellite = satellite r\<rparr>"

text \<open>\<^verbatim>\<open>df.dropna(subset=["latitude", "longitude", "acq_date"])\<close>\<close>

definition dropna :: "('d option, 'm) df_row_scheme list \<Rightarrow> ('d option, 'm) df_row_scheme list" where
  "dropna df = filter (\<lambda>r. latitude r \<noteq> None \<and> longitude r \<noteq> None \<and> acq_date r \<noteq> None) df"

text \<open>\<^verbatim>\<open>Timestamp.date()\<close> and the column accessor \<^verbatim>\<open>.dt.date\<close> (NaT stays null).\<close>

definition date_of :: "timestamp \<Rightarrow> date" where
  "date_of ts = fst ts"

definition dt_date :: "(timestamp option, 'm) df_row_scheme \<Rightarrow> date option" where
  "dt_date r = map_option date_of (acq_date r)"

text \<open>\<^verbatim>\<open>Series.unique()\<close>: the distinct values in order of first appearance.\<close>

definition unique :: "'a list \<Rightarrow> 'a list" where
  "unique xs = rev (remdups (rev xs))"

text \<open>\<^verbatim>\<open>Series.max()\<close> skips nulls; it is null when no value is left.\<close>

definition series_max :: "'a::linorder option list \<Rightarrow> 'a option" where
  "series_max col =
     (case List.map_filter id col of [] \<Rightarrow> None | v # vs \<Rightarrow> Some (fold max vs v))"

text \<open>
  \<^verbatim>\<open>Series.value_counts()\<close>: nulls are not counted; one entry per distinct value, the
  most frequent first (values with equal counts in order of first appearance).
\<close>

definition value_counts :: "'a option list \<Rightarrow> ('a \<times> nat) list" where
  "value_counts col =
     (let vs = List.map_filter id col
      in sort_key (\<lambda>kc. - int (snd kc)) (map (\<lambda>k. (k, count_list vs k)) (unique vs)))"

text \<open>
  \<^verbatim>\<open>value_counts(normalize=True)\<close> divides each count by the sum of the counts, in
  float64: the quotient is rounded.
\<close>

definition value_counts_normalize :: "rounding \<Rightarrow> 'a option list \<Rightarrow> ('a \<times> float) list" where
  "value_counts_normalize fl col =
     (let counts = value_counts col; total = sum_list (map snd counts)
      in map (\<lambda>kc. (fst kc, fl (of_nat (snd kc) / of_nat total))) counts)"

text \<open>
  \<^verbatim>\<open>df.groupby(keys).size()\<close>: rows with a null key are in no group; the group keys in
  ascending order, each with its number of rows.
\<close>

definition groupby_size :: "'k::linorder option list \<Rightarrow> ('k \<times> nat) list" where
  "groupby_size keys =
     (let ks = List.map_filter id keys
      in map (\<lambda>k. (k, count_list ks k)) (sort (remdups ks)))"

section \<open>Ingestion and normalisation: \<^verbatim>\<open>load_firms_data\<close> (lines 13 to 20)\<close>

text \<open>
  \<^verbatim>\<open>pd.read_csv(FIRMS_URL)\<close> either raises or returns the raw table; its outcome is the
  argument \<open>read_csv\<close>. The rest of the function cannot raise on a table with the
  columns of the feed.
\<close>

definition load_firms_data :: "parser \<Rightarrow> raw_row list result \<Rightarrow> gdf result" where
  "load_firms_data to_datetime read_csv =
     (case read_csv of
        Inl e \<Rightarrow> Inl e
      | Inr df0 \<Rightarrow>
          let df1 = map2 assign_acq_date df0 (to_datetime_coerce to_datetime (map acq_date df0));
              df2 = dropna df1;
              geometry_col = map (\<lambda>xy. Point (fst xy) (snd xy)) (zip (map longitude df2) (map latitude df2));
              df3 = map2 (\<lambda>r g. df_row.extend r (geo_row.fields g)) df2 geometry_col;
              gdf0 = \<lparr>rows = df3, crs = ''EPSG:4326''\<rparr>;
              gdf1 = \<lparr>rows = map (\<lambda>r. geo_row.extend r (gdf_row.fields (brightness r))) (rows gdf0),
                      crs = crs gdf0\<rparr>
          in Inr gdf1)"

text \<open>
  What lines 17 and 19 together add to one row that survived line 16: the point built
  from its longitude and latitude, and the copy of its brightness. The lemma
  \<open>load_firms_data_rows\<close> below shows that the function above computes exactly this.
\<close>

definition add_columns :: "timestamp option df_row \<Rightarrow> fire_detection" where
  "add_columns r =
     geo_row.extend (df_row.extend r (geo_row.fields (Point (longitude r) (latitude r))))
       (gdf_row.fields (brightness r))"

subsection \<open>The cache around it: \<^verbatim>\<open>@st.cache_data(ttl=3600)\<close> (line 12)\<close>

text \<open>
  The cache holds at most one entry (the function has no arguments): the table and the
  time, in seconds, at which it was stored. A call within the time to live returns the
  stored table and does not read the feed; any other call runs the function, and stores
  the table it returns. A raised exception is not stored.
\<close>

record cache_entry =
  stored_at :: nat
  cached :: gdf

definition ttl :: nat where
  "ttl = 3600"

definition cached_load_firms_data ::
  "parser \<Rightarrow> cache_entry option \<Rightarrow> nat \<Rightarrow> raw_row list result \<Rightarrow> gdf result \<times> cache_entry option" where
  "cached_load_firms_data to_datetime c now read_csv =
     (case c of
        Some e \<Rightarrow>
          if now < stored_at e + ttl then (Inr (cached e), c)
          else (case load_firms_data to_datetime read_csv of
                  Inl err \<Rightarrow> (Inl err, None)
                | Inr g \<Rightarrow> (Inr g, Some \<lparr>stored_at = now, cached = g\<rparr>))
      | None \<Rightarrow>
          (case load_firms_data to_datetime read_csv of
             Inl err \<Rightarrow> (Inl err, None)
           | Inr g \<Rightarrow> (Inr g, Some \<lparr>stored_at = now, cached = g\<rparr>)))"

section \<open>The page: lines 22 to 101\<close>

subsection \<open>Sidebar controls\<close>

text \<open>
  What the user has set in the sidebar. A select box returns one of its options; the date
  widget returns the date picked, and its \<^verbatim>\<open>value\<close> argument while nothing was picked
  (\<open>date_input = None\<close>). The province and city boxes and the three layer boxes other
  than the hotspots one are read by no later line.
\<close>

datatype basemap = OpenStreetMap | CartoDB_Positron | CartoDB_DarkMatter

record controls =
  province :: string
  city :: string
  date_input :: "date option"
  basemap_choice :: basemap
  show_hotspots :: bool
  temperature :: bool
  wind :: bool
  precipitation :: bool

fun basemap_dict :: "basemap \<Rightarrow> string" where
  "basemap_dict OpenStreetMap = ''OpenStreetMap''"
| "basemap_dict CartoDB_Positron = ''CartoDB.Positron''"
| "basemap_dict CartoDB_DarkMatter = ''CartoDB.DarkMatter''"

text \<open>Python's \<^verbatim>\<open>max\<close> of a sequence raises \<^verbatim>\<open>ValueError\<close> on an empty one.\<close>

definition py_max :: "'a::linorder list \<Rightarrow> 'a result" where
  "py_max xs = (case xs of [] \<Rightarrow> Inl ValueError | x # xs' \<Rightarrow> Inr (fold max xs' x))"

text \<open>
  Lines 28 and 29. The default of the date widget is the latest available date, computed
  before the widget is asked. A null among the available dates is no date to compare or
  to show (\<open>TypeError\<close>); a table returned by \<open>load_firms_data\<close> has none.
\<close>

definition available_dates :: "gdf \<Rightarrow> date option list" where
  "available_dates gdf = unique (map dt_date (rows gdf))"

definition selected_date :: "gdf \<Rightarrow> controls \<Rightarrow> date result" where
  "selected_date gdf ctl =
     (case those (available_dates gdf) of
        None \<Rightarrow> Inl TypeError
      | Some ds \<Rightarrow>
          (case py_max ds of
             Inl e \<Rightarrow> Inl e
           | Inr v \<Rightarrow> Inr (case date_input ctl of None \<Rightarrow> v | Some d \<Rightarrow> d)))"

subsection \<open>Filter logic (line 47)\<close>

text \<open>
  \<^verbatim>\<open>gdf[gdf["acq_date"].dt.date == selected_date]\<close>: a new frame with the rows whose
  date equals the selected one; a null date equals no date.
\<close>

definition filtered :: "gdf \<Rightarrow> date \<Rightarrow> gdf" where
  "filtered gdf d = \<lparr>rows = filter (\<lambda>r. dt_date r = Some d) (rows gdf), crs = crs gdf\<rparr>"

subsection \<open>Map, metrics and charts\<close>

text \<open>
  The widgets are the data handed to the rendering libraries: strings are not formatted
  and nothing is drawn. A widget under \<^verbatim>\<open>if not filtered.empty\<close> is \<open>None\<close> when the
  frame is empty. A library call that raises ends the run.
\<close>

record marker =
  location :: "float \<times> float"
  popup :: "date option \<times> float option \<times> int option"

record leaf_map =
  basemap_of :: string
  heatmap :: "(float \<times> float \<times> float) list option"
  markers :: "marker list"

text \<open>
  Line 60, \<^verbatim>\<open>m.add_heatmap(data=filtered, latitude=..., longitude=..., value="value")\<close>:
  the heat map takes the three columns; folium refuses a null among them, and leafmap
  raises \<^verbatim>\<open>Exception\<close> for that.
\<close>

definition add_heatmap :: "fire_detection list \<Rightarrow> (float \<times> float \<times> float) list result" where
  "add_heatmap rs =
     (case those (map (\<lambda>r. case (latitude r, longitude r, value_col r) of
                              (Some la, Some lo, Some v) \<Rightarrow> Some (la, lo, v)
                            | _ \<Rightarrow> None) rs) of
        None \<Rightarrow> Inl PyException
      | Some data \<Rightarrow> Inr data)"

text \<open>
  Lines 61 to 63, one marker per row: folium raises \<^verbatim>\<open>ValueError\<close> for a location with
  a null coordinate, and the loop ends there.
\<close>

definition add_marker :: "fire_detection \<Rightarrow> marker result" where
  "add_marker r =
     (case (latitude r, longitude r) of
        (Some la, Some lo) \<Rightarrow>
          Inr \<lparr>location = (la, lo), popup = (dt_date r, brightness r, confidence r)\<rparr>
      | _ \<Rightarrow> Inl ValueError)"

fun add_markers :: "fire_detection list \<Rightarrow> marker list result" where
  "add_markers [] = Inr []"
| "add_markers (r # rs) =
     (case add_marker r of
        Inl e \<Rightarrow> Inl e
      | Inr m \<Rightarrow> (case add_markers rs of Inl e \<Rightarrow> Inl e | Inr ms \<Rightarrow> Inr (m # ms)))"

text \<open>Lines 57 to 64.\<close>

definition map_col :: "string \<Rightarrow> bool \<Rightarrow> fire_detection list \<Rightarrow> leaf_map result" where
  "map_col selected_basemap hotspots rs =
     (if rs = [] then Inr \<lparr>basemap_of = selected_basemap, heatmap = None, markers = []\<rparr>
      else
        (case (if hotspots then map_sum id Some (add_heatmap rs) else Inr None) of
           Inl e \<Rightarrow> Inl e
         | Inr h \<Rightarrow>
             (case add_markers rs of
                Inl e \<Rightarrow> Inl e
              | Inr ms \<Rightarrow> Inr \<lparr>basemap_of = selected_basemap, heatmap = h, markers = ms\<rparr>)))"

record key_metrics =
  total_fires :: nat
  max_brightness :: "float option option"
  latest_detection :: "date option option"

definition kpi_col :: "fire_detection list \<Rightarrow> key_metrics" where
  "kpi_col rs =
     \<lparr>total_fires = length rs,
      max_brightness = (if rs \<noteq> [] then Some (series_max (map brightness rs)) else None),
      latest_detection =
        (if rs \<noteq> [] then Some (map_option date_of (series_max (map acq_date rs))) else None)\<rparr>"

text \<open>
  Line 76: \<^verbatim>\<open>filtered["satellite"].value_counts(normalize=True) * 100\<close>. The product
  is a float64 product: it is rounded.
\<close>

definition fire_by_sat :: "rounding \<Rightarrow> fire_detection list \<Rightarrow> (string \<times> float) list" where
  "fire_by_sat fl rs =
     map (\<lambda>kv. (fst kv, fl (snd kv * 100))) (value_counts_normalize fl (map satellite rs))"

text \<open>
  Line 87: \<^verbatim>\<open>filtered.groupby(filtered["acq_time"] // 100).size()\<close>. Python's \<^verbatim>\<open>//\<close>
  rounds towards minus infinity, as \<open>div\<close> on \<open>int\<close> does.
\<close>

definition hourly :: "fire_detection list \<Rightarrow> (int \<times> nat) list" where
  "hourly rs = groupby_size (map (\<lambda>r. map_option (\<lambda>t. t div 100) (acq_time r)) rs)"

text \<open>
  Line 88, \<^verbatim>\<open>px.bar(x=hourly.index, y=hourly.values, ...)\<close>: when no row has an
  acquisition time both arguments are empty, plotly takes each for a list of column
  references and raises \<^verbatim>\<open>ValueError\<close>.
\<close>

definition px_bar :: "(int \<times> nat) list \<Rightarrow> (int \<times> nat) list result" where
  "px_bar counts = (if counts = [] then Inl ValueError else Inr counts)"

subsection \<open>Export section (lines 98 to 101)\<close>

text \<open>
  \<^verbatim>\<open>DataFrame.to_csv(index=False)\<close> writes the header line and then one line per row of
  the frame, in the order of the rows. The text of the header line and of the line of a
  row (how pandas formats the cells) are parameters of the model; both end with the line
  terminator.
\<close>

definition to_csv :: "string \<Rightarrow> (fire_detection \<Rightarrow> string) \<Rightarrow> gdf \<Rightarrow> string" where
  "to_csv header line f = header @ concat (map line (rows f))"

text \<open>The section is a download button with its data and file name, or a warning.\<close>

datatype export = Download_button string string | Warning string

definition export_section :: "string \<Rightarrow> (fire_detection \<Rightarrow> string) \<Rightarrow> gdf \<Rightarrow> export" where
  "export_section header line f =
     (if rows f \<noteq> [] then Download_button (to_csv header line f) ''filtered_fires.csv''
      else Warning ''No fire data available for selected date.'')"

subsection \<open>One run of the script\<close>

record page =
  the_filtered :: gdf
  the_map :: leaf_map
  the_metrics :: key_metrics
  pie_chart :: "(string \<times> float) list option"
  bar_chart :: "(int \<times> nat) list option"
  histogram :: "int option list option"
  the_export :: export

text \<open>
  The script from line 24 on, given the table that line 22 obtained. The widgets are
  built in the order of the script, and the first exception ends the run.
\<close>

definition dashboard ::
  "rounding \<Rightarrow> string \<Rightarrow> (fire_detection \<Rightarrow> string) \<Rightarrow> gdf \<Rightarrow> controls \<Rightarrow> page result" where
  "dashboard fl header line gdf ctl =
     (case selected_date gdf ctl of
        Inl e \<Rightarrow> Inl e
      | Inr d \<Rightarrow>
          let selected_basemap = basemap_dict (basemap_choice ctl);
              f = filtered gdf d;
              rs = rows f
          in (case map_col selected_basemap (show_hotspots ctl) rs of
                Inl e \<Rightarrow> Inl e
              | Inr m \<Rightarrow>
                  (case (if rs \<noteq> [] then map_sum id Some (px_bar (hourly rs)) else Inr None) of
                     Inl e \<Rightarrow> Inl e
                   | Inr bar \<Rightarrow>
                       Inr \<lparr>the_filtered = f,
                            the_map = m,
                            the_metrics = kpi_col rs,
                            pie_chart = (if rs \<noteq> [] then Some (fire_by_sat fl rs) else None),
                            bar_chart = bar,
                            histogram = (if rs \<noteq> [] then Some (map confidence rs) else None),
                            the_export = export_section header line f\<rparr>)))"

text \<open>
  The whole script: line 22 calls the cached loader, an exception it raises ends the
  run, and the page is rendered from the table it returns.
\<close>

definition script ::
  "parser \<Rightarrow> rounding \<Rightarrow> string \<Rightarrow> (fire_detection \<Rightarrow> string) \<Rightarrow> cache_entry option \<Rightarrow> nat
     \<Rightarrow> raw_row list result \<Rightarrow> controls \<Rightarrow> page result \<times> cache_entry option" where
  "script to_datetime fl header line c now read_csv ctl =
     (case cached_load_firms_data to_datetime c now read_csv of
        (Inl e, c') \<Rightarrow> (Inl e, c')
      | (Inr gdf, c') \<Rightarrow> (dashboard fl header line gdf ctl, c'))"

subsection \<open>Float64 rounding\<close>

text \<open>
  What the theorems on float results assume of the rounding function: on the normal
  range of binary64 the rounded value is within the relative error \<open>1 / 2 ^ 53\<close> of the exact
  one, as IEEE 754 rounding to nearest is.
\<close>

definition binary64 :: "rounding \<Rightarrow> bool" where
  "binary64 fl \<longleftrightarrow>
     (\<forall>x. 1 / 2 ^ 1022 \<le> \<bar>x\<bar> \<and> \<bar>x\<bar> \<le> 2 ^ 1023 \<longrightarrow> \<bar>fl x - x\<bar> \<le> \<bar>x\<bar> / 2 ^ 53)"

subsection \<open>The share the pie chart approximates\<close>

text \<open>
  The percentage, in exact arithmetic, of the rows with the satellite identifier \<open>s\<close> among
  the rows that carry an identifier. The theorem on \<open>fire_by_sat\<close> compares the float
  results of line 76 with it.
\<close>

definition exact_share :: "fire_detection list \<Rightarrow> string \<Rightarrow> rat" where
  "exact_share rs s =
     100 * (of_nat (length (filter (\<lambda>r. satellite r = Some s) rs))
            / of_nat (length (filter (\<lambda>r. satellite r \<noteq> None) rs)))"

section \<open>Example inputs\<close>

text \<open>
  A parser that knows three date strings, a feed of three valid rows (the dates, times and
  satellites of the examples in the specification) followed by three invalid ones, the
  text of a header and of a row, a rounding and a setting of the controls. They
  instantiate the theorems below.
\<close>

definition example_to_datetime :: parser where
  "example_to_datetime col s =
     map_of [(''2024-05-01'', ((2024, 5, 1), 0)),
             (''2024-05-02'', ((2024, 5, 2), 0)),
             (''2024-05-02 13:45:00'', ((2024, 5, 2), 49500))] s"

definition raw ::
  "float option \<Rightarrow> float option \<Rightarrow> string option \<Rightarrow> int option \<Rightarrow> float option \<Rightarrow> string option
     \<Rightarrow> raw_row" where
  "raw la lo d t b s =
     \<lparr>latitude = la, longitude = lo, acq_date = d, acq_time = t, brightness = b,
      confidence = Some 80, satellite = s\<rparr>"

definition example_feed :: "raw_row list" where
  "example_feed =
     [raw (Some 50) (Some (- 100)) (Some ''2024-05-01'') (Some 1345) (Some (3001 / 10)) (Some ''Aqua''),
      raw (Some 51) (Some (- 101)) (Some ''2024-05-02'') (Some 59) (Some (621 / 2)) (Some ''Aqua''),
      raw (Some 52) (Some (- 102)) (Some ''2024-05-02 13:45:00'') (Some 1345) (Some 295) (Some ''Terra''),
      raw None (Some (- 103)) (Some ''2024-05-02'') (Some 100) (Some 300) (Some ''Terra''),
      raw (Some 54) (Some (- 104)) (Some ''yesterday'') (Some 200) (Some 300) (Some ''Aqua''),
      raw (Some 55) None None None None None]"

definition detection ::
  "float \<Rightarrow> float \<Rightarrow> timestamp \<Rightarrow> int option \<Rightarrow> float option \<Rightarrow> string option \<Rightarrow> fire_detection" where
  "detection la lo d t b s =
     \<lparr>latitude = Some la, longitude = Some lo, acq_date = Some d, acq_time = t, brightness = b,
      confidence = Some 80, satellite = s, geometry = Point (Some lo) (Some la), value_col = b\<rparr>"

definition example_gdf :: gdf where
  "example_gdf =
     \<lparr>rows = [detection 50 (- 100) ((2024, 5, 1), 0) (Some 1345) (Some (3001 / 10)) (Some ''Aqua''),
              detection 51 (- 101) ((2024, 5, 2), 0) (Some 59) (Some (621 / 2)) (Some ''Aqua''),
              detection 52 (- 102) ((2024, 5, 2), 49500) (Some 1345) (Some 295) (Some ''Terra'')],
      crs = ''EPSG:4326''\<rparr>"

definition example_header :: string where
  "example_header = ''header;''"

definition example_line :: "fire_detection \<Rightarrow> string" where
  "example_line r = ''row;''"

text \<open>
  The float64 rounding of the values that occur in the examples: 2/3 and 1/3 and the
  products of their roundings with 100 are rounded as binary64 rounds them; every other
  value that occurs is a float64 value already.
\<close>

definition example_fl :: rounding where
  "example_fl x =
     (if x = 2 / 3 then 6004799503160661 / 9007199254740992
      else if x = 1 / 3 then 6004799503160661 / 18014398509481984
      else if x = 6004799503160661 / 9007199254740992 * 100
        then 2345624805922133 / 35184372088832
      else if x = 6004799503160661 / 18014398509481984 * 100
        then 2345624805922133 / 70368744177664
      else x)"

definition example_controls :: controls where
  "example_controls =
     \<lparr>province = ''All'', city = ''All'', date_input = None, basemap_choice = OpenStreetMap,
      show_hotspots = True, temperature = False, wind = False, precipitation = False\<rparr>"

section \<open>Properties of the normalisation\<close>

lemma map2_col: "map2 f xs (map g (map a xs)) = map (\<lambda>r. f r (g (a r))) xs"
  by (induction xs) simp_all

lemma map2_zip_cols:
  "map2 f xs (map g (zip (map a xs) (map b xs))) = map (\<lambda>r. f r (g (a r, b r))) xs"
  by (induction xs) simp_all

lemma add_columns_simps:
  "latitude (add_columns r) = latitude r"
  "longitude (add_columns r) = longitude r"
  "acq_date (add_columns r) = acq_date r"
  "acq_time (add_columns r) = acq_time r"
  "brightness (add_columns r) = brightness r"
  "confidence (add_columns r) = confidence r"
  "satellite (add_columns r) = satellite r"
  "geometry (add_columns r) = Point (longitude r) (latitude r)"
  "value_col (add_columns r) = brightness r"
  "df_row.truncate (add_columns r) = r"
  by (simp_all add: add_columns_def df_row.defs geo_row.defs gdf_row.defs)

lemma assign_acq_date_simps:
  "latitude (assign_acq_date r d) = latitude r"
  "longitude (assign_acq_date r d) = longitude r"
  "acq_date (assign_acq_date r d) = d"
  "acq_time (assign_acq_date r d) = acq_time r"
  "brightness (assign_acq_date r d) = brightness r"
  "confidence (assign_acq_date r d) = confidence r"
  "satellite (assign_acq_date r d) = satellite r"
  by (simp_all add: assign_acq_date_def)

text \<open>The positional column assignments of lines 15, 17 and 19 act row by row.\<close>

lemma load_firms_data_rows:
  "load_firms_data P (Inr df) =
     Inr \<lparr>rows = map add_columns
                  (dropna (map (\<lambda>r. assign_acq_date r
                      (case acq_date r of None \<Rightarrow> None | Some s \<Rightarrow> P (map acq_date df) s)) df)),
          crs = ''EPSG:4326''\<rparr>"
proof -
  have a: "map2 assign_acq_date df (to_datetime_coerce P (map acq_date df)) =
           map (\<lambda>r. assign_acq_date r
                  (case acq_date r of None \<Rightarrow> None | Some s \<Rightarrow> P (map acq_date df) s)) df"
    unfolding to_datetime_coerce_def by (rule map2_col)
  have b: "map2 (\<lambda>r g. df_row.extend r (geo_row.fields g)) xs
             (map (\<lambda>xy. Point (fst xy) (snd xy)) (zip (map longitude xs) (map latitude xs))) =
           map (\<lambda>r. df_row.extend r (geo_row.fields (Point (longitude r) (latitude r)))) xs"
    for xs :: "timestamp option df_row list"
    using map2_zip_cols [of "\<lambda>r g. df_row.extend r (geo_row.fields g)" xs
        "\<lambda>xy. Point (fst xy) (snd xy)" longitude latitude]
    by simp
  have c: "brightness (df_row.extend r e) = brightness r"
    for r :: "timestamp option df_row" and e :: "unit geo_row_ext"
    by (simp add: df_row.defs)
  show ?thesis
    unfolding load_firms_data_def Let_def sum.case a b
    by (simp add: o_def c add_columns_def)
qed

lemma load_firms_data_no_nulls:
  assumes "load_firms_data P (Inr df) = Inr g" and "r \<in> set (rows g)"
  shows "latitude r \<noteq> None \<and> longitude r \<noteq> None \<and> acq_date r \<noteq> None"
  using assms unfolding load_firms_data_rows
  by (auto simp: dropna_def add_columns_simps)

lemma dropna_parse:
  "dropna (map (\<lambda>r. assign_acq_date r (f r)) xs) =
   map (\<lambda>r. assign_acq_date r (f r))
     (filter (\<lambda>r. latitude r \<noteq> None \<and> longitude r \<noteq> None \<and> f r \<noteq> None) xs)"
  by (induction xs) (simp_all add: dropna_def assign_acq_date_simps)

lemma example_load: "load_firms_data example_to_datetime (Inr example_feed) = Inr example_gdf"
  by (simp add: load_firms_data_def example_feed_def example_gdf_def raw_def detection_def
      to_datetime_coerce_def assign_acq_date_def dropna_def example_to_datetime_def
      df_row.defs geo_row.defs gdf_row.defs)

text \<open>
  C1. For every raw feed and every parser, \<open>load_firms_data\<close> returns a table (parsing
  raises on no date string); every row of the table has a latitude, a longitude and an
  acquisition date that are not null; and the rows of the table are, in order, the raw
  rows that have a latitude, a longitude and a date string that parses, with the date
  parsed: a row whose date string does not parse is dropped.
\<close>

theorem load_firms_data_rows_valid:
  "\<exists>g. load_firms_data to_datetime (Inr df) = Inr g
     \<and> (\<forall>r\<in>set (rows g). latitude r \<noteq> None \<and> longitude r \<noteq> None \<and> acq_date r \<noteq> None)
     \<and> map df_row.truncate (rows g) =
         map (\<lambda>r. assign_acq_date r
                (case acq_date r of None \<Rightarrow> None | Some s \<Rightarrow> to_datetime (map acq_date df) s))
           (filter (\<lambda>r. latitude r \<noteq> None \<and> longitude r \<noteq> None
                         \<and> (\<exists>s. acq_date r = Some s \<and> to_datetime (map acq_date df) s \<noteq> None)) df)"
proof (intro exI conjI)
  let ?f = "\<lambda>r::raw_row. case acq_date r of None \<Rightarrow> None | Some s \<Rightarrow> to_datetime (map acq_date df) s"
  let ?g = "\<lparr>rows = map add_columns (dropna (map (\<lambda>r. assign_acq_date r (?f r)) df)),
             crs = ''EPSG:4326''\<rparr>"
  show 1: "load_firms_data to_datetime (Inr df) = Inr ?g"
    by (rule load_firms_data_rows)
  show "\<forall>r\<in>set (rows ?g). latitude r \<noteq> None \<and> longitude r \<noteq> None \<and> acq_date r \<noteq> None"
    using load_firms_data_no_nulls [OF 1] by blast
  have eq: "(?f r \<noteq> None) = (\<exists>s. acq_date r = Some s \<and> to_datetime (map acq_date df) s \<noteq> None)" for r
    by (cases "acq_date r") simp_all
  have "map df_row.truncate (rows ?g) = dropna (map (\<lambda>r. assign_acq_date r (?f r)) df)"
    by (simp add: o_def add_columns_simps)
  also have "\<dots> = map (\<lambda>r. assign_acq_date r (?f r))
      (filter (\<lambda>r. latitude r \<noteq> None \<and> longitude r \<noteq> None \<and> ?f r \<noteq> None) df)"
    by (rule dropna_parse)
  finally show "map df_row.truncate (rows ?g) =
         map (\<lambda>r. assign_acq_date r (?f r))
           (filter (\<lambda>r. latitude r \<noteq> None \<and> longitude r \<noteq> None
                         \<and> (\<exists>s. acq_date r = Some s \<and> to_datetime (map acq_date df) s \<noteq> None)) df)"
    unfolding eq .
qed

theorem load_firms_data_rows_valid_witness:
  "load_firms_data example_to_datetime (Inr example_feed) = Inr example_gdf
   \<and> length example_feed = 6 \<and> length (rows example_gdf) = 3
   \<and> list_all (\<lambda>r. latitude r \<noteq> None \<and> longitude r \<noteq> None \<and> acq_date r \<noteq> None) (rows example_gdf)"
proof -
  have "\<forall>r\<in>set (rows example_gdf). latitude r \<noteq> None \<and> longitude r \<noteq> None \<and> acq_date r \<noteq> None"
    using load_firms_data_rows_valid [of example_to_datetime example_feed]
    unfolding example_load by blast
  moreover have "length example_feed = 6" "length (rows example_gdf) = 3"
    by (simp_all add: example_feed_def example_gdf_def)
  ultimately show ?thesis
    using example_load by (simp add: list_all_iff)
qed

section \<open>Properties of the filter\<close>

lemma rows_filtered: "rows (filtered T d) = filter (\<lambda>r. dt_date r = Some d) (rows T)"
  by (simp add: filtered_def)

lemma map_col_Nil:
  "map_col b h [] = Inr \<lparr>basemap_of = b, heatmap = None, markers = []\<rparr>"
  by (simp add: map_col_def)

lemma dashboard_page_filtered:
  "selected_date T ctl = Inr d \<Longrightarrow> dashboard fl header line T ctl = Inr p \<Longrightarrow>
     the_filtered p = filtered T d \<and> the_export p = export_section header line (filtered T d)"
  by (auto simp: dashboard_def Let_def split: sum.splits if_splits)

lemma dashboard_empty_filtered:
  "selected_date T ctl = Inr d \<Longrightarrow> rows (filtered T d) = [] \<Longrightarrow>
     \<exists>p. dashboard fl header line T ctl = Inr p"
  by (simp add: dashboard_def Let_def map_col_Nil)

lemma example_filtered:
  "rows (filtered example_gdf (2024, 5, 2)) =
     [detection 51 (- 101) ((2024, 5, 2), 0) (Some 59) (Some (621 / 2)) (Some ''Aqua''),
      detection 52 (- 102) ((2024, 5, 2), 49500) (Some 1345) (Some 295) (Some ''Terra'')]"
  by (simp add: filtered_def example_gdf_def detection_def dt_date_def date_of_def)

lemma example_filtered_empty: "rows (filtered example_gdf (2023, 1, 1)) = []"
  by (simp add: filtered_def example_gdf_def detection_def dt_date_def date_of_def)

lemma example_selected_date: "selected_date example_gdf example_controls = Inr (2024, 5, 2)"
  by (simp add: selected_date_def available_dates_def unique_def example_gdf_def detection_def
        dt_date_def date_of_def py_max_def example_controls_def)

lemma example_selected_date_picked:
  "selected_date example_gdf (example_controls\<lparr>date_input := Some d\<rparr>) = Inr d"
  by (simp add: selected_date_def available_dates_def unique_def example_gdf_def detection_def
        dt_date_def date_of_def py_max_def example_controls_def)

text \<open>
  C2. For every table \<open>T\<close> and date \<open>d\<close>: the rows of \<open>filtered T d\<close> are rows of \<open>T\<close>;
  each of them has the date \<open>d\<close>; a row of \<open>T\<close> acquired on \<open>d\<close> is returned whatever its
  time of day; when no row of \<open>T\<close> has the date \<open>d\<close> the result has no rows; and when the
  filtered frame has no rows the run of the script that selects \<open>d\<close> raises nothing: it
  returns its page, whose filtered frame is \<open>filtered T d\<close>.
\<close>

theorem filtered_projection:
  "set (rows (filtered T d)) \<subseteq> set (rows T)
   \<and> (\<forall>r\<in>set (rows (filtered T d)). dt_date r = Some d)
   \<and> (\<forall>r\<in>set (rows T). \<forall>t. acq_date r = Some (d, t) \<longrightarrow> r \<in> set (rows (filtered T d)))
   \<and> ((\<forall>r\<in>set (rows T). dt_date r \<noteq> Some d) \<longrightarrow> rows (filtered T d) = [])
   \<and> (selected_date T ctl = Inr d \<and> rows (filtered T d) = [] \<longrightarrow>
        (\<exists>p. dashboard fl header line T ctl = Inr p \<and> the_filtered p = filtered T d))"
proof (intro conjI)
  show "set (rows (filtered T d)) \<subseteq> set (rows T)"
    by (simp add: rows_filtered)
  show "\<forall>r\<in>set (rows (filtered T d)). dt_date r = Some d"
    by (simp add: rows_filtered)
  show "\<forall>r\<in>set (rows T). \<forall>t. acq_date r = Some (d, t) \<longrightarrow> r \<in> set (rows (filtered T d))"
  proof (intro ballI allI impI)
    fix r t
    assume r: "r \<in> set (rows T)" and "acq_date r = Some (d, t)"
    then have "dt_date r = Some d"
      by (simp only: dt_date_def date_of_def option.map fst_conv)
    with r show "r \<in> set (rows (filtered T d))"
      by (simp add: rows_filtered)
  qed
  show "(\<forall>r\<in>set (rows T). dt_date r \<noteq> Some d) \<longrightarrow> rows (filtered T d) = []"
    by (simp add: rows_filtered filter_empty_conv)
  show "selected_date T ctl = Inr d \<and> rows (filtered T d) = [] \<longrightarrow>
        (\<exists>p. dashboard fl header line T ctl = Inr p \<and> the_filtered p = filtered T d)"
    using dashboard_empty_filtered dashboard_page_filtered by blast
qed

theorem filtered_projection_witness:
  "rows (filtered example_gdf (2024, 5, 2)) =
     [detection 51 (- 101) ((2024, 5, 2), 0) (Some 59) (Some (621 / 2)) (Some ''Aqua''),
      detection 52 (- 102) ((2024, 5, 2), 49500) (Some 1345) (Some 295) (Some ''Terra'')]
   \<and> list_all (\<lambda>r. dt_date r = Some (2024, 5, 2) \<and> r \<in> set (rows example_gdf))
        (rows (filtered example_gdf (2024, 5, 2)))
   \<and> rows (filtered example_gdf (2023, 1, 1)) = []
   \<and> selected_date example_gdf (example_controls\<lparr>date_input := Some (2023, 1, 1)\<rparr>) = Inr (2023, 1, 1)
   \<and> (\<exists>p. dashboard example_fl example_header example_line example_gdf
             (example_controls\<lparr>date_input := Some (2023, 1, 1)\<rparr>) = Inr p
          \<and> the_filtered p = filtered example_gdf (2023, 1, 1))"
proof -
  let ?ctl = "example_controls\<lparr>date_input := Some (2023, 1, 1)\<rparr>"
  note a = filtered_projection [of example_gdf "(2024, 5, 2)" ?ctl example_fl example_header
      example_line]
  note b = filtered_projection [of example_gdf "(2023, 1, 1)" ?ctl example_fl example_header
      example_line]
  have none: "\<forall>r\<in>set (rows example_gdf). dt_date r \<noteq> Some (2023, 1, 1)"
    by (simp add: example_gdf_def detection_def dt_date_def date_of_def)
  have sel: "selected_date example_gdf ?ctl = Inr (2023, 1, 1)"
    by (rule example_selected_date_picked)
  have 1: "list_all (\<lambda>r. dt_date r = Some (2024, 5, 2) \<and> r \<in> set (rows example_gdf))
        (rows (filtered example_gdf (2024, 5, 2)))"
    unfolding list_all_iff using a by blast
  have 2: "rows (filtered example_gdf (2023, 1, 1)) = []"
    using b none by blast
  have 3: "\<exists>p. dashboard example_fl example_header example_line example_gdf ?ctl = Inr p
          \<and> the_filtered p = filtered example_gdf (2023, 1, 1)"
    using b sel 2 by blast
  show ?thesis
    using example_filtered 1 2 3 sel by blast
qed

section \<open>Geometry and the derived column\<close>

text \<open>
  C3. For every raw feed, \<open>load_firms_data\<close> returns a table tagged EPSG:4326, and in
  every row of it the point has the row's longitude as x and the row's latitude as y,
  neither of them null.
\<close>

theorem load_firms_data_geometry:
  "\<exists>g. load_firms_data to_datetime (Inr df) = Inr g
     \<and> crs g = ''EPSG:4326''
     \<and> (\<forall>r\<in>set (rows g). x_coord (geometry r) = longitude r \<and> y_coord (geometry r) = latitude r
            \<and> longitude r \<noteq> None \<and> latitude r \<noteq> None)"
  unfolding load_firms_data_rows
  by (auto simp: add_columns_simps dropna_def)

theorem load_firms_data_geometry_witness:
  "load_firms_data example_to_datetime (Inr example_feed) = Inr example_gdf
   \<and> crs example_gdf = ''EPSG:4326''
   \<and> list_all (\<lambda>r. x_coord (geometry r) = longitude r \<and> y_coord (geometry r) = latitude r)
        (rows example_gdf)
   \<and> map (\<lambda>r. (x_coord (geometry r), y_coord (geometry r))) (rows example_gdf) =
       [(Some (- 100), Some 50), (Some (- 101), Some 51), (Some (- 102), Some 52)]"
proof -
  have "map (\<lambda>r. (x_coord (geometry r), y_coord (geometry r))) (rows example_gdf) =
       [(Some (- 100), Some 50), (Some (- 101), Some 51), (Some (- 102), Some 52)]"
    by (simp add: example_gdf_def detection_def)
  then show ?thesis
    using load_firms_data_geometry [of example_to_datetime example_feed]
    unfolding example_load by (auto simp: list_all_iff)
qed

text \<open>
  C6. For every raw feed, \<open>load_firms_data\<close> returns a table in every row of which the
  column \<^verbatim>\<open>value\<close> equals the column \<^verbatim>\<open>brightness\<close>; so it is not null where the
  brightness is not null.
\<close>

theorem load_firms_data_value:
  "\<exists>g. load_firms_data to_datetime (Inr df) = Inr g
     \<and> (\<forall>r\<in>set (rows g). value_col r = brightness r
            \<and> (brightness r \<noteq> None \<longrightarrow> value_col r \<noteq> None))"
  unfolding load_firms_data_rows
  by (auto simp: add_columns_simps)

theorem load_firms_data_value_witness:
  "load_firms_data example_to_datetime (Inr example_feed) = Inr example_gdf
   \<and> list_all (\<lambda>r. value_col r = brightness r \<and> brightness r \<noteq> None \<and> value_col r \<noteq> None)
        (rows example_gdf)
   \<and> map brightness (rows example_gdf) = [Some (3001 / 10), Some (621 / 2), Some 295]"
proof -
  have b: "map brightness (rows example_gdf) = [Some (3001 / 10), Some (621 / 2), Some 295]"
    by (simp add: example_gdf_def detection_def)
  have n: "list_all (\<lambda>r. brightness r \<noteq> None) (rows example_gdf)"
    by (simp add: example_gdf_def detection_def del: not_None_eq)
  have "\<forall>r\<in>set (rows example_gdf). value_col r = brightness r
          \<and> (brightness r \<noteq> None \<longrightarrow> value_col r \<noteq> None)"
    using load_firms_data_value [of example_to_datetime example_feed]
    unfolding example_load by blast
  with n have "list_all (\<lambda>r. value_col r = brightness r \<and> brightness r \<noteq> None \<and> value_col r \<noteq> None)
      (rows example_gdf)"
    unfolding list_all_iff by blast
  with b example_load show ?thesis by blast
qed

section \<open>The province and city selectors\<close>

lemma selected_date_province_city:
  "selected_date gdf (ctl\<lparr>province := p, city := q\<rparr>) = selected_date gdf ctl"
  by (simp add: selected_date_def split: option.splits sum.splits)

lemma dashboard_province_city:
  "dashboard fl header line gdf (ctl\<lparr>province := p, city := q\<rparr>) = dashboard fl header line gdf ctl"
  by (simp add: dashboard_def selected_date_province_city split: sum.splits)

lemma script_province_city:
  "script to_datetime fl header line c now read_csv (ctl\<lparr>province := p, city := q\<rparr>) =
   script to_datetime fl header line c now read_csv ctl"
  by (simp add: script_def dashboard_province_city split: prod.splits sum.splits)

text \<open>
  C10. Two runs of the script that differ only in the province and the city selected give
  the same outcome: the same selected date, and the same page (its filtered frame and
  every widget computed from it) or the same error, from the same cache and feed.
\<close>

theorem province_city_no_effect:
  "script to_datetime fl header line c now read_csv (ctl\<lparr>province := p1, city := c1\<rparr>) =
   script to_datetime fl header line c now read_csv (ctl\<lparr>province := p2, city := c2\<rparr>)
   \<and> selected_date gdf (ctl\<lparr>province := p1, city := c1\<rparr>) =
       selected_date gdf (ctl\<lparr>province := p2, city := c2\<rparr>)
   \<and> dashboard fl header line gdf (ctl\<lparr>province := p1, city := c1\<rparr>) =
       dashboard fl header line gdf (ctl\<lparr>province := p2, city := c2\<rparr>)"
  by (simp only: script_province_city dashboard_province_city selected_date_province_city)

section \<open>The render cycle on an empty table\<close>

lemma dashboard_empty_table:
  "rows gdf = [] \<Longrightarrow> dashboard fl header line gdf ctl = Inl ValueError"
  by (simp add: dashboard_def selected_date_def available_dates_def unique_def py_max_def)

lemma load_firms_data_missing_latitude:
  "load_firms_data to_datetime (Inr [raw None lo d t b s]) = Inr \<lparr>rows = [], crs = ''EPSG:4326''\<rparr>"
  unfolding load_firms_data_rows by (simp add: dropna_def assign_acq_date_simps raw_def)

text \<open>
  C4. A feed whose only row has no latitude is normalised to the table with no rows; the
  run of the script on it then ends at line 29 with \<open>ValueError\<close> (Python's \<^verbatim>\<open>max\<close> of
  no dates), for every parser, rounding, serialiser, clock and setting of the controls,
  and renders no page. A fetch error ends the run with \<open>FetchError\<close>.
\<close>

theorem script_raises_on_empty_table:
  "load_firms_data to_datetime
       (Inr [raw None (Some (- 103)) (Some ''2024-05-02'') (Some 100) (Some 300) (Some ''Terra'')]) =
     Inr \<lparr>rows = [], crs = ''EPSG:4326''\<rparr>
   \<and> script to_datetime fl header line None now
       (Inr [raw None (Some (- 103)) (Some ''2024-05-02'') (Some 100) (Some 300) (Some ''Terra'')]) ctl =
     (Inl ValueError, Some \<lparr>stored_at = now, cached = \<lparr>rows = [], crs = ''EPSG:4326''\<rparr>\<rparr>)
   \<and> script to_datetime fl header line None now (Inl FetchError) ctl = (Inl FetchError, None)"
  by (simp add: script_def cached_load_firms_data_def load_firms_data_missing_latitude
      dashboard_empty_table) (simp add: load_firms_data_def)

section \<open>The export section\<close>

lemma those_all_Some: "\<forall>x\<in>set xs. x \<noteq> None \<Longrightarrow> those xs = Some (map the xs)"
  by (induction xs) auto

lemma those_None_iff: "those xs = None \<longleftrightarrow> None \<in> set xs"
  by (induction xs) (auto split: option.splits)

lemma unique_Nil_iff: "unique xs = [] \<longleftrightarrow> xs = []"
  by (simp add: unique_def)

lemma set_unique: "set (unique xs) = set xs"
  by (simp add: unique_def)

lemma py_max_returns: "xs \<noteq> [] \<Longrightarrow> \<exists>v. py_max xs = Inr v"
  by (cases xs) (simp_all add: py_max_def)

lemma selected_date_returns:
  assumes "load_firms_data P (Inr df) = Inr g" and "rows g \<noteq> []"
  shows "\<exists>d. selected_date g ctl = Inr d"
proof -
  have "dt_date r \<noteq> None" if "r \<in> set (rows g)" for r
  proof -
    have "acq_date r \<noteq> None"
      using load_firms_data_no_nulls [OF assms(1) that] by (rule conjunct2 [THEN conjunct2])
    then show ?thesis
      by (cases "acq_date r") (simp_all add: dt_date_def)
  qed
  then have "\<forall>x\<in>set (available_dates g). x \<noteq> None"
    unfolding available_dates_def set_unique by (simp only: set_map) blast
  then have t: "those (available_dates g) = Some (map the (available_dates g))"
    by (rule those_all_Some)
  have "map the (available_dates g) \<noteq> []"
    using assms(2) by (simp add: available_dates_def unique_Nil_iff)
  then obtain v where "py_max (map the (available_dates g)) = Inr v"
    using py_max_returns by blast
  with t have "selected_date g ctl = Inr (case date_input ctl of None \<Rightarrow> v | Some d \<Rightarrow> d)"
    by (simp add: selected_date_def)
  then show ?thesis ..
qed

lemma those_map_None_iff: "those (map f xs) = None \<longleftrightarrow> (\<exists>x\<in>set xs. f x = None)"
  by (induction xs) (auto split: option.splits)

lemma add_heatmap_returns:
  "(\<exists>data. add_heatmap rs = Inr data) \<longleftrightarrow>
     (\<forall>r\<in>set rs. latitude r \<noteq> None \<and> longitude r \<noteq> None \<and> value_col r \<noteq> None)"
proof -
  define cell where "cell = (\<lambda>r::fire_detection. case (latitude r, longitude r, value_col r) of
                              (Some la, Some lo, Some v) \<Rightarrow> Some (la, lo, v)
                            | _ \<Rightarrow> None)"
  have c: "cell r = None \<longleftrightarrow> \<not> (latitude r \<noteq> None \<and> longitude r \<noteq> None \<and> value_col r \<noteq> None)" for r
    unfolding cell_def by (cases "latitude r"; cases "longitude r"; cases "value_col r") simp_all
  have "(\<exists>data. add_heatmap rs = Inr data) \<longleftrightarrow> those (map cell rs) \<noteq> None"
    unfolding add_heatmap_def cell_def [symmetric] by (cases "those (map cell rs)") simp_all
  also have "\<dots> \<longleftrightarrow> (\<forall>r\<in>set rs. cell r \<noteq> None)"
    unfolding those_map_None_iff by (simp del: not_None_eq)
  finally show ?thesis
    by (simp add: c del: not_None_eq)
qed

lemma add_marker_returns:
  "(\<exists>m. add_marker r = Inr m) \<longleftrightarrow> latitude r \<noteq> None \<and> longitude r \<noteq> None"
  by (cases "latitude r"; cases "longitude r") (simp_all add: add_marker_def)

lemma add_markers_returns:
  "(\<exists>ms. add_markers rs = Inr ms) \<longleftrightarrow> (\<forall>r\<in>set rs. latitude r \<noteq> None \<and> longitude r \<noteq> None)"
proof (induction rs)
  case Nil
  show ?case by simp
next
  case (Cons r rs)
  show ?case
  proof (cases "add_marker r")
    case (Inl e)
    with add_marker_returns [of r] show ?thesis by auto
  next
    case (Inr m)
    with add_marker_returns [of r] have "latitude r \<noteq> None \<and> longitude r \<noteq> None"
      by blast
    with Inr Cons show ?thesis
      by (cases "add_markers rs") auto
  qed
qed

lemma map_filter_id_Nil_iff:
  "List.map_filter id (map f xs) = [] \<longleftrightarrow> (\<forall>x\<in>set xs. f x = None)"
  by (induction xs) (auto split: option.splits)

lemma hourly_Nil_iff: "hourly rs = [] \<longleftrightarrow> (\<forall>r\<in>set rs. acq_time r = None)"
proof -
  define key where "key = (\<lambda>r::fire_detection. map_option (\<lambda>t. t div 100) (acq_time r))"
  have k: "key r = None \<longleftrightarrow> acq_time r = None" for r
    by (simp add: key_def)
  have "hourly rs = [] \<longleftrightarrow> set (hourly rs) = {}"
    by simp
  also have "\<dots> \<longleftrightarrow> set (List.map_filter id (map key rs)) = {}"
    by (simp add: hourly_def groupby_size_def Let_def key_def)
  also have "\<dots> \<longleftrightarrow> List.map_filter id (map key rs) = []"
    by simp
  also have "\<dots> \<longleftrightarrow> (\<forall>r\<in>set rs. key r = None)"
    by (rule map_filter_id_Nil_iff)
  finally show ?thesis
    unfolding k .
qed

lemma map_col_returns:
  "(\<exists>m. map_col b h rs = Inr m) \<longleftrightarrow>
     rs = [] \<or> ((h \<longrightarrow> (\<exists>data. add_heatmap rs = Inr data)) \<and> (\<exists>ms. add_markers rs = Inr ms))"
  by (cases "add_heatmap rs"; cases "add_markers rs") (auto simp: map_col_def)

lemma dashboard_returns:
  assumes "selected_date T ctl = Inr d"
  shows "(\<exists>p. dashboard fl header line T ctl = Inr p) \<longleftrightarrow>
     rows (filtered T d) = []
     \<or> ((show_hotspots ctl \<longrightarrow> (\<exists>data. add_heatmap (rows (filtered T d)) = Inr data))
        \<and> (\<exists>ms. add_markers (rows (filtered T d)) = Inr ms)
        \<and> hourly (rows (filtered T d)) \<noteq> [])"
proof -
  let ?rs = "rows (filtered T d)"
  show ?thesis
  proof (cases "map_col (basemap_dict (basemap_choice ctl)) (show_hotspots ctl) ?rs")
    case (Inl e)
    with map_col_returns [of "basemap_dict (basemap_choice ctl)" "show_hotspots ctl" ?rs]
    have "?rs \<noteq> []" and
      "\<not> ((show_hotspots ctl \<longrightarrow> (\<exists>data. add_heatmap ?rs = Inr data)) \<and> (\<exists>ms. add_markers ?rs = Inr ms))"
      by auto
    moreover from Inl assms have "\<not> (\<exists>p. dashboard fl header line T ctl = Inr p)"
      by (simp add: dashboard_def Let_def)
    ultimately show ?thesis by blast
  next
    case (Inr m)
    with map_col_returns [of "basemap_dict (basemap_choice ctl)" "show_hotspots ctl" ?rs]
    have m: "?rs = [] \<or> ((show_hotspots ctl \<longrightarrow> (\<exists>data. add_heatmap ?rs = Inr data))
        \<and> (\<exists>ms. add_markers ?rs = Inr ms))"
      by blast
    from Inr assms have "(\<exists>p. dashboard fl header line T ctl = Inr p) \<longleftrightarrow> ?rs = [] \<or> hourly ?rs \<noteq> []"
      by (simp add: dashboard_def Let_def px_bar_def)
    with m show ?thesis by blast
  qed
qed

lemma filtered_loaded_no_nulls:
  assumes "load_firms_data P (Inr df) = Inr g" and "r \<in> set (rows (filtered g d))"
  shows "latitude r \<noteq> None \<and> longitude r \<noteq> None"
proof -
  from assms(2) have "r \<in> set (rows g)"
    by (simp add: rows_filtered)
  from load_firms_data_no_nulls [OF assms(1) this] show ?thesis
    by blast
qed

text \<open>
  C9. On a table returned by \<open>load_firms_data\<close> that has a row, for every setting of the
  controls: a date is selected; when the filtered frame has no rows the run raises
  nothing and its export section is the warning, with no download button; whenever the
  run reaches the export section with a filtered frame that has rows, the section is the
  download button with the file name \<^verbatim>\<open>filtered_fires.csv\<close>, whose data is the header
  line followed by the line of each row of the table that has the selected date, in
  order, and of no other row. The run reaches the export section exactly when the
  filtered frame is empty, or the heat map (if ticked) finds no null value and some row
  has an acquisition time.
\<close>

theorem export_section_policy:
  "load_firms_data to_datetime (Inr df) = Inr g \<and> rows g \<noteq> [] \<longrightarrow>
     (\<exists>d. selected_date g ctl = Inr d
        \<and> (rows (filtered g d) = [] \<longrightarrow>
             (\<exists>p. dashboard fl header line g ctl = Inr p
                \<and> the_export p = Warning ''No fire data available for selected date.''))
        \<and> (\<forall>p. dashboard fl header line g ctl = Inr p \<and> rows (filtered g d) \<noteq> [] \<longrightarrow>
             the_export p =
               Download_button
                 (header @ concat (map line (filter (\<lambda>r. dt_date r = Some d) (rows g))))
                 ''filtered_fires.csv'')
        \<and> ((\<exists>p. dashboard fl header line g ctl = Inr p) \<longleftrightarrow>
             rows (filtered g d) = []
             \<or> ((show_hotspots ctl \<longrightarrow> (\<forall>r\<in>set (rows (filtered g d)). value_col r \<noteq> None))
                \<and> (\<exists>r\<in>set (rows (filtered g d)). acq_time r \<noteq> None))))"
proof (intro impI)
  assume "load_firms_data to_datetime (Inr df) = Inr g \<and> rows g \<noteq> []"
  then have g: "load_firms_data to_datetime (Inr df) = Inr g" and ne: "rows g \<noteq> []"
    by simp_all
  obtain d where d: "selected_date g ctl = Inr d"
    using selected_date_returns [OF g ne] by blast
  let ?rs = "rows (filtered g d)"
  have coords: "\<forall>r\<in>set ?rs. latitude r \<noteq> None \<and> longitude r \<noteq> None"
    using filtered_loaded_no_nulls [OF g] by blast
  have 1: "\<exists>p. dashboard fl header line g ctl = Inr p
        \<and> the_export p = Warning ''No fire data available for selected date.''" if e: "?rs = []"
  proof -
    obtain p where p: "dashboard fl header line g ctl = Inr p"
      using dashboard_empty_filtered [OF d e] by blast
    from dashboard_page_filtered [OF d p] e
    have "the_export p = Warning ''No fire data available for selected date.''"
      by (simp add: export_section_def)
    with p show ?thesis by blast
  qed
  have 2: "the_export p =
       Download_button (header @ concat (map line (filter (\<lambda>r. dt_date r = Some d) (rows g))))
         ''filtered_fires.csv''"
    if pn: "dashboard fl header line g ctl = Inr p \<and> ?rs \<noteq> []" for p
  proof -
    from pn have p: "dashboard fl header line g ctl = Inr p" and n: "?rs \<noteq> []"
      by simp_all
    from dashboard_page_filtered [OF d p] n show ?thesis
      by (simp add: export_section_def to_csv_def rows_filtered)
  qed
  have heat: "(\<exists>data. add_heatmap ?rs = Inr data) \<longleftrightarrow> (\<forall>r\<in>set ?rs. value_col r \<noteq> None)"
    unfolding add_heatmap_returns using coords by blast
  have marks: "\<exists>ms. add_markers ?rs = Inr ms"
    unfolding add_markers_returns using coords by blast
  have bars: "hourly ?rs \<noteq> [] \<longleftrightarrow> (\<exists>r\<in>set ?rs. acq_time r \<noteq> None)"
    unfolding hourly_Nil_iff by (simp del: not_None_eq)
  have 3: "(\<exists>p. dashboard fl header line g ctl = Inr p) \<longleftrightarrow>
       ?rs = []
       \<or> ((show_hotspots ctl \<longrightarrow> (\<forall>r\<in>set ?rs. value_col r \<noteq> None))
          \<and> (\<exists>r\<in>set ?rs. acq_time r \<noteq> None))"
    unfolding dashboard_returns [OF d] heat bars using marks by blast
  show "\<exists>d. selected_date g ctl = Inr d
        \<and> (rows (filtered g d) = [] \<longrightarrow>
             (\<exists>p. dashboard fl header line g ctl = Inr p
                \<and> the_export p = Warning ''No fire data available for selected date.''))
        \<and> (\<forall>p. dashboard fl header line g ctl = Inr p \<and> rows (filtered g d) \<noteq> [] \<longrightarrow>
             the_export p =
               Download_button
                 (header @ concat (map line (filter (\<lambda>r. dt_date r = Some d) (rows g))))
                 ''filtered_fires.csv'')
        \<and> ((\<exists>p. dashboard fl header line g ctl = Inr p) \<longleftrightarrow>
             rows (filtered g d) = []
             \<or> ((show_hotspots ctl \<longrightarrow> (\<forall>r\<in>set (rows (filtered g d)). value_col r \<noteq> None))
                \<and> (\<exists>r\<in>set (rows (filtered g d)). acq_time r \<noteq> None)))"
    using d 1 2 3 by blast
qed

lemma example_rows_nonempty: "rows example_gdf \<noteq> []"
  by (simp add: example_gdf_def)

theorem export_section_policy_witness:
  "load_firms_data example_to_datetime (Inr example_feed) = Inr example_gdf
   \<and> rows example_gdf \<noteq> []
   \<and> rows (filtered example_gdf (2023, 1, 1)) = []
   \<and> (\<exists>p. dashboard example_fl example_header example_line example_gdf
             (example_controls\<lparr>date_input := Some (2023, 1, 1)\<rparr>) = Inr p
         \<and> the_export p = Warning ''No fire data available for selected date.'')
   \<and> rows (filtered example_gdf (2024, 5, 2)) \<noteq> []
   \<and> (\<exists>p. dashboard example_fl example_header example_line example_gdf example_controls = Inr p
         \<and> the_export p = Download_button ''header;row;row;'' ''filtered_fires.csv'')"
proof -
  let ?ctl = "example_controls\<lparr>date_input := Some (2023, 1, 1)\<rparr>"
  let ?run = "dashboard example_fl example_header example_line example_gdf"
  have pre: "load_firms_data example_to_datetime (Inr example_feed) = Inr example_gdf
      \<and> rows example_gdf \<noteq> []"
    using example_load example_rows_nonempty by simp
  have n: "rows (filtered example_gdf (2024, 5, 2)) \<noteq> []"
    by (simp add: example_filtered)
  have hot: "show_hotspots example_controls"
    by (simp add: example_controls_def)
  have vals: "\<forall>r\<in>set (rows (filtered example_gdf (2024, 5, 2))). value_col r \<noteq> None"
    unfolding example_filtered by (simp add: detection_def del: not_None_eq)
  have times: "\<exists>r\<in>set (rows (filtered example_gdf (2024, 5, 2))). acq_time r \<noteq> None"
    unfolding example_filtered by (simp add: detection_def del: not_None_eq)
  have csv: "example_header @ concat (map example_line
      (filter (\<lambda>r. dt_date r = Some (2024, 5, 2)) (rows example_gdf))) = ''header;row;row;''"
    unfolding rows_filtered [symmetric] example_filtered
    by (simp add: example_header_def example_line_def)
  note empty_run = export_section_policy [where to_datetime = example_to_datetime
      and df = example_feed and g = example_gdf and ctl = ?ctl and fl = example_fl
      and header = example_header and line = example_line, THEN mp, OF pre]
  then obtain d where a: "selected_date example_gdf ?ctl = Inr d
      \<and> (rows (filtered example_gdf d) = [] \<longrightarrow>
           (\<exists>p. ?run ?ctl = Inr p
              \<and> the_export p = Warning ''No fire data available for selected date.''))"
    by (elim exE conjE) (rule that, intro conjI)
  then have "d = (2023, 1, 1)"
    by (simp add: example_selected_date_picked)
  with a example_filtered_empty
  have 1: "\<exists>p. ?run ?ctl = Inr p
         \<and> the_export p = Warning ''No fire data available for selected date.''"
    by simp
  note full_run = export_section_policy [where to_datetime = example_to_datetime
      and df = example_feed and g = example_gdf and ctl = example_controls and fl = example_fl
      and header = example_header and line = example_line, THEN mp, OF pre]
  then obtain d' where d': "selected_date example_gdf example_controls = Inr d'"
    and b: "\<forall>p. ?run example_controls = Inr p \<and> rows (filtered example_gdf d') \<noteq> [] \<longrightarrow>
          the_export p = Download_button
            (example_header @ concat (map example_line
               (filter (\<lambda>r. dt_date r = Some d') (rows example_gdf)))) ''filtered_fires.csv''"
    and r: "(\<exists>p. ?run example_controls = Inr p)
        \<longleftrightarrow> rows (filtered example_gdf d') = []
          \<or> ((show_hotspots example_controls \<longrightarrow>
                (\<forall>r\<in>set (rows (filtered example_gdf d')). value_col r \<noteq> None))
             \<and> (\<exists>r\<in>set (rows (filtered example_gdf d')). acq_time r \<noteq> None))"
    by (elim exE conjE) (rule that)
  from d' have d'_eq: "d' = (2024, 5, 2)"
    by (simp add: example_selected_date)
  have "\<exists>p. ?run example_controls = Inr p"
    unfolding r d'_eq using vals times by (intro disjI2 conjI impI)
  then obtain p where p: "?run example_controls = Inr p" ..
  from b [unfolded d'_eq csv, rule_format, of p] p n
  have "the_export p = Download_button ''header;row;row;'' ''filtered_fires.csv''"
    by (simp del: not_None_eq)
  with p have 2: "\<exists>p. ?run example_controls = Inr p
         \<and> the_export p = Download_button ''header;row;row;'' ''filtered_fires.csv''"
    by (intro exI conjI)
  show ?thesis
    using pre example_filtered_empty 1 n 2 by (intro conjI) simp_all
qed

section \<open>The charts\<close>

lemma count_list_map_filter:
  "count_list (List.map_filter id (map f xs)) k = length (filter (\<lambda>x. f x = Some k) xs)"
  by (induction xs) (auto split: option.splits)

lemma set_map_filter_id: "set (List.map_filter id ys) = {k. Some k \<in> set ys}"
  by (induction ys) (auto split: option.splits)

lemma map_of_graph:
  "map_of (map (\<lambda>k. (k, f k)) xs) k = (if k \<in> set xs then Some (f k) else None)"
  by (induction xs) simp_all

lemma map_of_groupby_size:
  "map_of (groupby_size (map f xs)) k =
     (if \<exists>x\<in>set xs. f x = Some k then Some (length (filter (\<lambda>x. f x = Some k) xs)) else None)"
proof -
  have "k \<in> set (List.map_filter id (map f xs)) \<longleftrightarrow> (\<exists>x\<in>set xs. f x = Some k)"
    unfolding set_map_filter_id by force
  then show ?thesis
    unfolding groupby_size_def Let_def map_of_graph count_list_map_filter by simp
qed

lemma groupby_size_keys:
  "sorted (map fst (groupby_size keys))" "distinct (map fst (groupby_size keys))"
  by (simp_all add: groupby_size_def Let_def o_def)

text \<open>
  C7. The hourly chart counts every row under the key \<^verbatim>\<open>acq_time // 100\<close>: for a row of
  the filtered set with acquisition time \<open>t\<close> between 0 and 2359 the key \<open>t div 100\<close> lies
  between 0 and 23 and its entry is the number of rows with that key; the keys are in
  ascending order without repetition. A row with time 1345 makes the bucket 13, one with
  time 59 the bucket 0.
\<close>

theorem hourly_buckets:
  "(\<forall>r\<in>set rs. \<forall>t. acq_time r = Some t \<and> 0 \<le> t \<and> t \<le> 2359 \<longrightarrow>
       0 \<le> t div 100 \<and> t div 100 \<le> 23
       \<and> map_of (hourly rs) (t div 100) =
           Some (length (filter (\<lambda>r'. map_option (\<lambda>t'. t' div 100) (acq_time r') = Some (t div 100)) rs)))
   \<and> sorted (map fst (hourly rs)) \<and> distinct (map fst (hourly rs))
   \<and> hourly [r1\<lparr>acq_time := Some 1345\<rparr>] = [(13, 1)]
   \<and> hourly [r2\<lparr>acq_time := Some 59\<rparr>] = [(0, 1)]"
proof (intro conjI ballI allI impI)
  fix r t
  assume r: "r \<in> set rs" and t: "acq_time r = Some t \<and> 0 \<le> t \<and> t \<le> 2359"
  from t have "0 \<le> t" and "t \<le> 2359"
    by simp_all
  then show "0 \<le> t div 100" and "t div 100 \<le> 23"
    by presburger+
  from t have "map_option (\<lambda>t. t div 100) (acq_time r) = Some (t div 100)"
    by simp
  with r have "\<exists>x\<in>set rs. map_option (\<lambda>t. t div 100) (acq_time x) = Some (t div 100)"
    by blast
  then show "map_of (hourly rs) (t div 100) =
      Some (length (filter (\<lambda>r'. map_option (\<lambda>t'. t' div 100) (acq_time r') = Some (t div 100)) rs))"
    unfolding hourly_def map_of_groupby_size by simp
next
  show "sorted (map fst (hourly rs))" "distinct (map fst (hourly rs))"
    unfolding hourly_def by (rule groupby_size_keys)+
next
  show "hourly [r1\<lparr>acq_time := Some 1345\<rparr>] = [(13, 1)]"
    by (simp add: hourly_def groupby_size_def)
  show "hourly [r2\<lparr>acq_time := Some 59\<rparr>] = [(0, 1)]"
    by (simp add: hourly_def groupby_size_def)
qed

theorem hourly_buckets_witness:
  "detection 50 (- 100) ((2024, 5, 1), 0) (Some 1345) (Some (3001 / 10)) (Some ''Aqua'') \<in> set (rows example_gdf)
   \<and> (0::int) \<le> 1345 \<and> (1345::int) \<le> 2359
   \<and> map_of (hourly (rows example_gdf)) 13 = Some 2
   \<and> hourly (rows example_gdf) = [(0, 1), (13, 2)]"
proof -
  let ?r = "detection 50 (- 100) ((2024, 5, 1), 0) (Some 1345) (Some (3001 / 10)) (Some ''Aqua'')"
  have m: "?r \<in> set (rows example_gdf)"
    by (simp add: example_gdf_def)
  have t: "acq_time ?r = Some 1345"
    by (simp add: detection_def)
  have n: "length (filter (\<lambda>r'. map_option (\<lambda>t'. t' div 100) (acq_time r') = Some (1345 div 100))
             (rows example_gdf)) = 2"
    by (simp add: example_gdf_def detection_def)
  have "map_of (hourly (rows example_gdf)) (1345 div 100) = Some 2"
    using hourly_buckets [of "rows example_gdf" ?r ?r] m t n by auto
  moreover have "hourly (rows example_gdf) = [(0, 1), (13, 2)]"
    by (simp add: hourly_def groupby_size_def example_gdf_def detection_def)
  ultimately show ?thesis
    using m by simp
qed

lemma length_map_filter_id:
  "length (List.map_filter id (map f xs)) = length (filter (\<lambda>x. f x \<noteq> None) xs)"
  by (induction xs) (auto split: option.splits)

lemma distinct_unique: "distinct (unique xs)"
  by (simp add: unique_def)

lemma set_value_counts:
  "set (value_counts col) =
     (\<lambda>k. (k, count_list (List.map_filter id col) k)) ` set (List.map_filter id col)"
  by (simp add: value_counts_def Let_def set_unique)

lemma distinct_value_counts: "distinct (map fst (value_counts col))"
proof -
  let ?vs = "List.map_filter id col"
  let ?xs = "map (\<lambda>k. (k, count_list ?vs k)) (unique ?vs)"
  have "distinct (map fst ?xs)"
    by (simp add: o_def distinct_unique)
  then have "distinct ?xs" and "inj_on fst (set ?xs)"
    by (simp_all only: distinct_map)
  then have "distinct (map fst (sort_key (\<lambda>kc. - int (snd kc)) ?xs))"
    by (simp add: distinct_map)
  then show ?thesis
    by (simp add: value_counts_def Let_def)
qed

lemma sum_list_value_counts:
  "sum_list (map snd (value_counts col)) = length (List.map_filter id col)"
proof -
  let ?vs = "List.map_filter id col"
  have d: "distinct (value_counts col)"
    using distinct_value_counts [of col] by (simp only: distinct_map)
  have "sum_list (map snd (value_counts col)) = sum snd (set (value_counts col))"
    using d by (rule sum_list_distinct_conv_sum_set)
  also have "\<dots> = sum (count_list ?vs) (set ?vs)"
    unfolding set_value_counts by (subst sum.reindex) (simp_all add: inj_on_def o_def)
  also have "\<dots> = length ?vs"
    by (rule sum_count_set) simp_all
  finally show ?thesis .
qed

lemma value_counts_entry:
  assumes "kc \<in> set (value_counts col)"
  shows "1 \<le> snd kc" and "snd kc \<le> length (List.map_filter id col)"
proof -
  from assms obtain k where k: "k \<in> set (List.map_filter id col)"
    and kc: "kc = (k, count_list (List.map_filter id col) k)"
    unfolding set_value_counts by blast
  from k have "count_list (List.map_filter id col) k \<noteq> 0"
    by (simp add: count_list_0_iff)
  with kc show "1 \<le> snd kc"
    by simp
  from kc show "snd kc \<le> length (List.map_filter id col)"
    by (simp add: count_le_length)
qed

lemma sum_list_scaled:
  "sum_list (map (\<lambda>kc. a * (of_nat (snd kc) / c)) xs) = (a * (of_nat (sum_list (map snd xs)) / c) :: rat)"
  by (induction xs) (simp_all add: add_divide_distrib distrib_left)

lemma sum_list_abs_diff:
  "\<bar>sum_list (map f xs) - sum_list (map g xs)\<bar> \<le> (sum_list (map (\<lambda>x. \<bar>f x - g x\<bar>) xs) :: rat)"
proof (induction xs)
  case Nil
  show ?case by simp
next
  case (Cons x xs)
  have "\<bar>sum_list (map f (x # xs)) - sum_list (map g (x # xs))\<bar>
      = \<bar>(f x - g x) + (sum_list (map f xs) - sum_list (map g xs))\<bar>"
    by simp
  also have "\<dots> \<le> \<bar>f x - g x\<bar> + \<bar>sum_list (map f xs) - sum_list (map g xs)\<bar>"
    by (rule abs_triangle_ineq)
  also have "\<dots> \<le> \<bar>f x - g x\<bar> + sum_list (map (\<lambda>x. \<bar>f x - g x\<bar>) xs)"
    using Cons by simp
  finally show ?case by simp
qed

text \<open>Two roundings in a row: a quotient in (0, 1], then its product with 100.\<close>

lemma two_roundings:
  fixes q u lo hi :: rat
  assumes fl: "\<And>x. lo \<le> \<bar>x\<bar> \<Longrightarrow> \<bar>x\<bar> \<le> hi \<Longrightarrow> \<bar>fl x - x\<bar> \<le> \<bar>x\<bar> * u"
    and u: "0 \<le> u" "u \<le> 1 / 2"
    and lo: "0 < lo" "lo \<le> q"
    and q1: "q \<le> 1"
    and hi: "200 \<le> hi"
  shows "\<bar>fl (fl q * 100) - 100 * q\<bar> \<le> 250 * q * u"
proof -
  have q0: "0 < q"
    using lo by linarith
  have "\<bar>fl q - q\<bar> \<le> \<bar>q\<bar> * u"
    using lo q1 hi q0 by (intro fl) simp_all
  with q0 have a: "\<bar>fl q - q\<bar> \<le> q * u"
    by simp
  have "q * u \<le> q * (1 / 2)"
    using u q0 by (intro mult_left_mono) simp_all
  with a have lower: "q / 2 \<le> fl q" and upper: "fl q \<le> 3 * q / 2"
    by linarith+
  let ?y = "fl q * 100"
  have y0: "0 < ?y" and ylo: "lo \<le> ?y" and y150: "?y \<le> 150 * q"
    using lower upper q0 lo by linarith+
  have "\<bar>fl ?y - ?y\<bar> \<le> \<bar>?y\<bar> * u"
    using ylo y150 q1 hi y0 by (intro fl) simp_all
  with y0 have "\<bar>fl ?y - ?y\<bar> \<le> ?y * u"
    by simp
  also have "\<dots> \<le> 150 * q * u"
    using y150 u by (intro mult_right_mono) simp_all
  finally have b: "\<bar>fl ?y - ?y\<bar> \<le> 150 * q * u" .
  have c: "\<bar>?y - 100 * q\<bar> \<le> 100 * (q * u)"
    using a by linarith
  show ?thesis
    using b c by linarith
qed

lemma binary64_rounding:
  assumes "binary64 fl" and "1 / 2 ^ 1022 \<le> \<bar>x\<bar>" and "\<bar>x\<bar> \<le> 2 ^ 1023"
  shows "\<bar>fl x - x\<bar> \<le> \<bar>x\<bar> * (1 / 2 ^ 53)"
  using assms unfolding binary64_def by simp

lemma binary64_share:
  fixes c n :: nat
  assumes b: "binary64 fl" and c: "1 \<le> c" "c \<le> n" and n: "n < 2 ^ 53"
  shows "\<bar>fl (fl (of_nat c / of_nat n) * 100) - 100 * (of_nat c / of_nat n)\<bar>
           \<le> 250 * (of_nat c / of_nat n) * (1 / 2 ^ 53)"
proof (rule two_roundings [where lo = "1 / 2 ^ 1022" and hi = "2 ^ 1023"])
  show "\<bar>fl x - x\<bar> \<le> \<bar>x\<bar> * (1 / 2 ^ 53)" if "1 / 2 ^ 1022 \<le> \<bar>x\<bar>" "\<bar>x\<bar> \<le> 2 ^ 1023" for x
    using b that by (rule binary64_rounding)
  show "(0::rat) \<le> 1 / 2 ^ 53" "(1::rat) / 2 ^ 53 \<le> 1 / 2" "(0::rat) < 1 / 2 ^ 1022"
    by simp_all
  have n0: "0 < n"
    using c by linarith
  have "(of_nat n :: rat) \<le> 2 ^ 53"
    using n by (metis less_imp_le of_nat_le_iff of_nat_numeral of_nat_power)
  also have "\<dots> \<le> 2 ^ 1022"
    by (rule power_increasing) simp_all
  finally have "(1::rat) / 2 ^ 1022 \<le> 1 / of_nat n"
    using n0 by (simp add: frac_le)
  also have "\<dots> \<le> of_nat c / of_nat n"
    using c n0 by (simp add: divide_right_mono)
  finally show "(1::rat) / 2 ^ 1022 \<le> of_nat c / of_nat n" .
  show "(of_nat c :: rat) / of_nat n \<le> 1"
    using c n0 by simp
  have "(200::rat) \<le> 2 ^ 8"
    by simp
  also have "\<dots> \<le> 2 ^ 1023"
    by (rule power_increasing) simp_all
  finally show "(200::rat) \<le> 2 ^ 1023" .
qed

lemma fire_by_sat_eq:
  "fire_by_sat fl rs =
     map (\<lambda>kc. (fst kc,
            fl (fl (of_nat (snd kc) / of_nat (length (filter (\<lambda>r. satellite r \<noteq> None) rs))) * 100)))
       (value_counts (map satellite rs))"
  by (simp add: fire_by_sat_def value_counts_normalize_def Let_def o_def sum_list_value_counts
      length_map_filter_id)

lemma fire_by_sat_entries:
  "(s, p) \<in> set (fire_by_sat fl rs) \<longleftrightarrow>
     (\<exists>r\<in>set rs. satellite r = Some s)
     \<and> p = fl (fl (of_nat (length (filter (\<lambda>r. satellite r = Some s) rs))
                   / of_nat (length (filter (\<lambda>r. satellite r \<noteq> None) rs))) * 100)"
proof -
  have "(\<exists>k. Some k \<in> satellite ` set rs \<and> k = s) \<longleftrightarrow> (\<exists>r\<in>set rs. satellite r = Some s)"
    by force
  then show ?thesis
    unfolding fire_by_sat_eq set_map set_value_counts image_image count_list_map_filter
      set_map_filter_id
    by (auto simp: image_iff)
qed

lemma fire_by_sat_distinct: "distinct (map fst (fire_by_sat fl rs))"
  unfolding fire_by_sat_eq using distinct_value_counts [of "map satellite rs"] by (simp add: o_def)

lemma fire_by_sat_entry_bound:
  assumes b: "binary64 fl" and n: "length rs < 2 ^ 53" and e: "(s, p) \<in> set (fire_by_sat fl rs)"
  shows "\<bar>p - exact_share rs s\<bar> \<le> 250 / 2 ^ 53"
proof -
  let ?c = "length (filter (\<lambda>r. satellite r = Some s) rs)"
  let ?n = "length (filter (\<lambda>r. satellite r \<noteq> None) rs)"
  from e have ex: "\<exists>r\<in>set rs. satellite r = Some s"
    and p: "p = fl (fl (of_nat ?c / of_nat ?n) * 100)"
    unfolding fire_by_sat_entries by simp_all
  from ex have "filter (\<lambda>r. satellite r = Some s) rs \<noteq> []"
    by (simp add: filter_empty_conv)
  then have c1: "1 \<le> ?c"
    by (simp add: Suc_le_eq)
  have "?c = length (filter (\<lambda>r. satellite r = Some s) (filter (\<lambda>r. satellite r \<noteq> None) rs))"
    by (simp del: not_None_eq) (metis (mono_tags, lifting) filter_cong option.distinct(1))
  also have "\<dots> \<le> ?n"
    by (rule length_filter_le)
  finally have cn: "?c \<le> ?n" .
  have "?n \<le> length rs"
    by (rule length_filter_le)
  with n have n53: "?n < 2 ^ 53"
    by linarith
  have n0: "0 < ?n"
    using c1 cn by linarith
  have "\<bar>p - exact_share rs s\<bar> \<le> 250 * (of_nat ?c / of_nat ?n) * (1 / 2 ^ 53)"
    unfolding p exact_share_def using b c1 cn n53 by (rule binary64_share)
  also have "\<dots> \<le> 250 * 1 * (1 / 2 ^ 53)"
    using cn n0 by (intro mult_right_mono mult_left_mono) simp_all
  finally show ?thesis
    by simp
qed

lemma fire_by_sat_sum_bound:
  assumes b: "binary64 fl" and n: "length rs < 2 ^ 53" and ex: "\<exists>r\<in>set rs. satellite r \<noteq> None"
  shows "\<bar>sum_list (map snd (fire_by_sat fl rs)) - 100\<bar> \<le> 250 / 2 ^ 53"
proof -
  let ?n = "length (filter (\<lambda>r. satellite r \<noteq> None) rs)"
  let ?counts = "value_counts (map satellite rs)"
  let ?p = "\<lambda>kc::string \<times> nat. fl (fl (of_nat (snd kc) / of_nat ?n) * 100)"
  let ?e = "\<lambda>kc::string \<times> nat. 100 * (rat_of_nat (snd kc) / of_nat ?n)"
  have len: "length (List.map_filter id (map satellite rs)) = ?n"
    by (rule length_map_filter_id)
  have "filter (\<lambda>r. satellite r \<noteq> None) rs \<noteq> []"
    using ex by (simp add: filter_empty_conv del: not_None_eq)
  then have n0: "0 < ?n"
    by simp
  have "?n \<le> length rs"
    by (rule length_filter_le)
  with n have n53: "?n < 2 ^ 53"
    by linarith
  have total: "sum_list (map snd ?counts) = ?n"
    unfolding sum_list_value_counts len ..
  have exact: "sum_list (map ?e ?counts) = 100"
    unfolding sum_list_scaled total using n0 by simp
  have each: "\<bar>?p kc - ?e kc\<bar> \<le> 250 * (of_nat (snd kc) / of_nat ?n) * (1 / 2 ^ 53)"
    if "kc \<in> set ?counts" for kc
    using b value_counts_entry [OF that, unfolded len] n53 by (rule binary64_share)
  have "\<bar>sum_list (map snd (fire_by_sat fl rs)) - 100\<bar> = \<bar>sum_list (map ?p ?counts) - sum_list (map ?e ?counts)\<bar>"
    unfolding fire_by_sat_eq exact by (simp add: o_def)
  also have "\<dots> \<le> sum_list (map (\<lambda>kc. \<bar>?p kc - ?e kc\<bar>) ?counts)"
    by (rule sum_list_abs_diff)
  also have "\<dots> \<le> sum_list (map (\<lambda>kc. 250 / 2 ^ 53 * (of_nat (snd kc) / of_nat ?n)) ?counts)"
    using each by (intro sum_list_mono) (simp add: mult.commute mult.left_commute)
  also have "\<dots> = 250 / 2 ^ 53"
    unfolding sum_list_scaled total using n0 by simp
  finally show ?thesis .
qed

lemma fire_by_sat_example:
  "fire_by_sat fl [r1\<lparr>satellite := Some ''Aqua''\<rparr>, r2\<lparr>satellite := Some ''Aqua''\<rparr>,
                   r3\<lparr>satellite := Some ''Terra''\<rparr>] =
     [(''Aqua'', fl (fl (2 / 3) * 100)), (''Terra'', fl (fl (1 / 3) * 100))]"
  by (simp add: fire_by_sat_def value_counts_normalize_def value_counts_def unique_def)

lemma binary64_example_shares:
  assumes "binary64 fl"
  shows "\<bar>fl (fl (2 / 3) * 100) - 6667 / 100\<bar> < 1 / 200"
    and "\<bar>fl (fl (1 / 3) * 100) - 3333 / 100\<bar> < 1 / 200"
proof -
  have a: "\<bar>fl (fl (of_nat 2 / of_nat 3) * 100) - 100 * (of_nat 2 / of_nat 3)\<bar>
      \<le> 250 * (of_nat 2 / of_nat 3) * (1 / 2 ^ 53)"
    using assms by (rule binary64_share) simp_all
  have t: "\<bar>fl (fl (of_nat 1 / of_nat 3) * 100) - 100 * (of_nat 1 / of_nat 3)\<bar>
      \<le> 250 * (of_nat 1 / of_nat 3) * (1 / 2 ^ 53)"
    using assms by (rule binary64_share) simp_all
  from a have "\<bar>fl (fl (2 / 3) * 100) - 200 / 3\<bar> \<le> 1 / 1000"
    by simp
  then show "\<bar>fl (fl (2 / 3) * 100) - 6667 / 100\<bar> < 1 / 200"
    by linarith
  from t have "\<bar>fl (fl (1 / 3) * 100) - 100 / 3\<bar> \<le> 1 / 1000"
    by simp
  then show "\<bar>fl (fl (1 / 3) * 100) - 3333 / 100\<bar> < 1 / 200"
    by linarith
qed

text \<open>
  C8, as amended. The pie chart has one entry per satellite identifier that occurs in the
  rows; the entry is the float64 result of dividing the number of rows with this
  identifier by the number of rows that carry any identifier and multiplying by 100: rows
  with no identifier are not counted. With binary64 rounding and fewer than \<open>2 ^ 53\<close> rows,
  each entry is within \<open>250 / 2 ^ 53\<close> of the exact share, and when some row carries an
  identifier the entries sum to 100 within \<open>250 / 2 ^ 53\<close>. When every row carries an
  identifier the exact share is the percentage of all rows. For the satellites Aqua,
  Aqua, Terra the entries are those of Aqua and Terra, in this order, and they are 66.67
  and 33.33 to two decimals.
\<close>

theorem fire_by_sat_shares:
  "((s, p) \<in> set (fire_by_sat fl rs) \<longleftrightarrow>
       (\<exists>r\<in>set rs. satellite r = Some s)
       \<and> p = fl (fl (of_nat (length (filter (\<lambda>r. satellite r = Some s) rs))
                     / of_nat (length (filter (\<lambda>r. satellite r \<noteq> None) rs))) * 100))
   \<and> distinct (map fst (fire_by_sat fl rs))
   \<and> (binary64 fl \<and> length rs < 2 ^ 53 \<longrightarrow>
        (\<forall>sp\<in>set (fire_by_sat fl rs). \<bar>snd sp - exact_share rs (fst sp)\<bar> \<le> 250 / 2 ^ 53)
        \<and> ((\<exists>r\<in>set rs. satellite r \<noteq> None) \<longrightarrow>
             \<bar>sum_list (map snd (fire_by_sat fl rs)) - 100\<bar> \<le> 250 / 2 ^ 53))
   \<and> ((\<forall>r\<in>set rs. satellite r \<noteq> None) \<longrightarrow>
         exact_share rs s =
           100 * (of_nat (length (filter (\<lambda>r. satellite r = Some s) rs)) / of_nat (length rs)))
   \<and> fire_by_sat fl [r1\<lparr>satellite := Some ''Aqua''\<rparr>, r2\<lparr>satellite := Some ''Aqua''\<rparr>,
                      r3\<lparr>satellite := Some ''Terra''\<rparr>] =
       [(''Aqua'', fl (fl (2 / 3) * 100)), (''Terra'', fl (fl (1 / 3) * 100))]
   \<and> (binary64 fl \<longrightarrow>
        \<bar>fl (fl (2 / 3) * 100) - 6667 / 100\<bar> < 1 / 200
        \<and> \<bar>fl (fl (1 / 3) * 100) - 3333 / 100\<bar> < 1 / 200)"
proof (intro conjI impI ballI)
  show "(s, p) \<in> set (fire_by_sat fl rs) \<longleftrightarrow>
       (\<exists>r\<in>set rs. satellite r = Some s)
       \<and> p = fl (fl (of_nat (length (filter (\<lambda>r. satellite r = Some s) rs))
                     / of_nat (length (filter (\<lambda>r. satellite r \<noteq> None) rs))) * 100)"
    by (rule fire_by_sat_entries)
  show "distinct (map fst (fire_by_sat fl rs))"
    by (rule fire_by_sat_distinct)
  show "\<bar>snd sp - exact_share rs (fst sp)\<bar> \<le> 250 / 2 ^ 53"
    if "binary64 fl \<and> length rs < 2 ^ 53" and "sp \<in> set (fire_by_sat fl rs)" for sp
    using that fire_by_sat_entry_bound [of fl rs "fst sp" "snd sp"] by simp
  show "\<bar>sum_list (map snd (fire_by_sat fl rs)) - 100\<bar> \<le> 250 / 2 ^ 53"
    if "binary64 fl \<and> length rs < 2 ^ 53" and "\<exists>r\<in>set rs. satellite r \<noteq> None"
    using that fire_by_sat_sum_bound [of fl rs] by blast
  show "exact_share rs s =
      100 * (of_nat (length (filter (\<lambda>r. satellite r = Some s) rs)) / of_nat (length rs))"
    if "\<forall>r\<in>set rs. satellite r \<noteq> None"
    using that by (simp add: exact_share_def del: not_None_eq)
  show "fire_by_sat fl [r1\<lparr>satellite := Some ''Aqua''\<rparr>, r2\<lparr>satellite := Some ''Aqua''\<rparr>,
                      r3\<lparr>satellite := Some ''Terra''\<rparr>] =
       [(''Aqua'', fl (fl (2 / 3) * 100)), (''Terra'', fl (fl (1 / 3) * 100))]"
    by (rule fire_by_sat_example)
  show "\<bar>fl (fl (2 / 3) * 100) - 6667 / 100\<bar> < 1 / 200" if "binary64 fl"
    using that by (rule binary64_example_shares)
  show "\<bar>fl (fl (1 / 3) * 100) - 3333 / 100\<bar> < 1 / 200" if "binary64 fl"
    using that by (rule binary64_example_shares)
qed

lemma example_fl_error: "\<bar>example_fl x - x\<bar> \<le> \<bar>x\<bar> / 2 ^ 53"
  by (simp add: example_fl_def)

lemma binary64_example_fl: "binary64 example_fl"
  unfolding binary64_def using example_fl_error by blast

lemma example_fire_by_sat:
  "fire_by_sat example_fl (rows example_gdf) =
     [(''Aqua'', 2345624805922133 / 35184372088832), (''Terra'', 2345624805922133 / 70368744177664)]"
  by (simp add: fire_by_sat_def value_counts_normalize_def value_counts_def unique_def
      example_gdf_def detection_def example_fl_def)

theorem fire_by_sat_shares_witness:
  "binary64 example_fl \<and> length (rows example_gdf) < 2 ^ 53
   \<and> map satellite (rows example_gdf) = [Some ''Aqua'', Some ''Aqua'', Some ''Terra'']
   \<and> list_all (\<lambda>r. satellite r \<noteq> None) (rows example_gdf)
   \<and> fire_by_sat example_fl (rows example_gdf) =
       [(''Aqua'', 2345624805922133 / 35184372088832), (''Terra'', 2345624805922133 / 70368744177664)]
   \<and> list_all (\<lambda>sp. \<bar>snd sp - exact_share (rows example_gdf) (fst sp)\<bar> \<le> 250 / 2 ^ 53)
        (fire_by_sat example_fl (rows example_gdf))
   \<and> \<bar>sum_list (map snd (fire_by_sat example_fl (rows example_gdf))) - 100\<bar> \<le> 250 / 2 ^ 53
   \<and> exact_share (rows example_gdf) ''Aqua'' = 100 * (2 / 3)
   \<and> \<bar>example_fl (example_fl (2 / 3) * 100) - 6667 / 100\<bar> < 1 / 200
   \<and> \<bar>example_fl (example_fl (1 / 3) * 100) - 3333 / 100\<bar> < 1 / 200"
proof -
  have len: "length (rows example_gdf) < 2 ^ 53"
    by (simp add: example_gdf_def)
  have sats: "map satellite (rows example_gdf) = [Some ''Aqua'', Some ''Aqua'', Some ''Terra'']"
    by (simp add: example_gdf_def detection_def)
  have all: "\<forall>r\<in>set (rows example_gdf). satellite r \<noteq> None"
    by (simp add: example_gdf_def detection_def del: not_None_eq)
  have ex: "\<exists>r\<in>set (rows example_gdf). satellite r \<noteq> None"
    by (simp add: example_gdf_def detection_def del: not_None_eq)
  have cnt: "length (filter (\<lambda>r. satellite r = Some ''Aqua'') (rows example_gdf)) = 2"
    "length (rows example_gdf) = 3"
    by (simp_all add: example_gdf_def detection_def)
  note inst = fire_by_sat_shares [where fl = example_fl and rs = "rows example_gdf"
      and s = "''Aqua''"]
  have pre: "binary64 example_fl \<and> length (rows example_gdf) < 2 ^ 53"
    using binary64_example_fl len by (rule conjI)
  have 1: "list_all (\<lambda>sp. \<bar>snd sp - exact_share (rows example_gdf) (fst sp)\<bar> \<le> 250 / 2 ^ 53)
        (fire_by_sat example_fl (rows example_gdf))"
    unfolding list_all_iff using inst pre by blast
  have 2: "\<bar>sum_list (map snd (fire_by_sat example_fl (rows example_gdf))) - 100\<bar> \<le> 250 / 2 ^ 53"
    using inst pre ex by blast
  have "exact_share (rows example_gdf) ''Aqua'' =
      100 * (of_nat (length (filter (\<lambda>r. satellite r = Some ''Aqua'') (rows example_gdf)))
             / of_nat (length (rows example_gdf)))"
    using inst all by blast
  then have 3: "exact_share (rows example_gdf) ''Aqua'' = 100 * (2 / 3)"
    unfolding cnt by simp
  have 4: "\<bar>example_fl (example_fl (2 / 3) * 100) - 6667 / 100\<bar> < 1 / 200"
    "\<bar>example_fl (example_fl (1 / 3) * 100) - 3333 / 100\<bar> < 1 / 200"
    using inst binary64_example_fl by blast+
  have 5: "list_all (\<lambda>r. satellite r \<noteq> None) (rows example_gdf)"
    unfolding list_all_iff by (rule all)
  show ?thesis
    using pre sats 5 example_fire_by_sat 1 2 3 4 by (intro conjI) simp_all
qed

text \<open>
  C8 as stated fails on rows without a satellite identifier: one such row alone is a
  non-empty row set whose chart is empty and sums to 0; next to a row of Aqua it leaves
  Aqua the share 100, though Aqua is on one row of two (50 percent). On the rows of the
  example (Aqua, Aqua, Terra) the float64 entries are 66.66666666666666 and
  33.33333333333333, not 66.67 and 33.33.
\<close>

theorem fire_by_sat_counterexample:
  "[detection 50 (- 100) ((2024, 5, 1), 0) (Some 1345) (Some 300) None] \<noteq> []
   \<and> fire_by_sat example_fl [detection 50 (- 100) ((2024, 5, 1), 0) (Some 1345) (Some 300) None] = []
   \<and> sum_list (map snd (fire_by_sat example_fl
         [detection 50 (- 100) ((2024, 5, 1), 0) (Some 1345) (Some 300) None])) = 0
   \<and> fire_by_sat example_fl
         [detection 50 (- 100) ((2024, 5, 1), 0) (Some 1345) (Some 300) (Some ''Aqua''),
          detection 51 (- 101) ((2024, 5, 1), 0) (Some 1345) (Some 300) None] = [(''Aqua'', 100)]
   \<and> 100 * (rat_of_nat (length (filter (\<lambda>r. satellite r = Some ''Aqua'')
         [detection 50 (- 100) ((2024, 5, 1), 0) (Some 1345) (Some 300) (Some ''Aqua''),
          detection 51 (- 101) ((2024, 5, 1), 0) (Some 1345) (Some 300) None])) / 2) = 50
   \<and> fire_by_sat example_fl (rows example_gdf) \<noteq> [(''Aqua'', 6667 / 100), (''Terra'', 3333 / 100)]"
  by (simp add: fire_by_sat_def value_counts_normalize_def value_counts_def unique_def
      detection_def example_fl_def example_gdf_def)

end
